theory Spec2Isabelle
  imports Main "HOL-Library.Sublist"
begin

section \<open>JavaScript values used by the banner\<close>

text \<open>
  A JavaScript string is a sequence of UTF-16 code units. Here it is a \<^typ>\<open>string\<close>
  whose characters are the code units U+0000 to U+00FF (Latin-1, which holds every
  literal of the component: the accented letters of the Spanish texts are single
  characters such as \<^term>\<open>CHR 0xE9\<close>). An optional property (\<open>x?: string\<close>) is an
  \<^typ>\<open>string option\<close>, \<open>None\<close> being \<open>undefined\<close>.
\<close>

datatype js_error = Error string | RangeError | TypeError

text \<open>
  A number is a finite value or \<open>NaN\<close>. Only its truthiness is read by the component
  (\<open>0\<close> and \<open>NaN\<close> are falsy); timestamps are integral milliseconds.
\<close>

datatype js_number = NaN | Finite int

text \<open>Truthiness of an optional string: \<open>undefined\<close> and \<open>''\<close> are falsy.\<close>

fun truthy :: "string option \<Rightarrow> bool" where
  "truthy None = False"
| "truthy (Some s) = (s \<noteq> [])"

text \<open>\<open>a || b\<close> on an optional string \<open>a\<close> and a string \<open>b\<close>.\<close>

fun or_str :: "string option \<Rightarrow> string \<Rightarrow> string" where
  "or_str None d = d"
| "or_str (Some s) d = (if s = [] then d else s)"

text \<open>\<open>a || undefined\<close> on an optional string.\<close>

fun or_undefined :: "string option \<Rightarrow> string option" where
  "or_undefined None = None"
| "or_undefined (Some s) = (if s = [] then None else Some s)"

text \<open>
  \<open>String.prototype.toLowerCase\<close> on Latin-1 code units: A to Z and the accented
  capitals U+00C0 to U+00DE (the multiplication sign U+00D7 apart) move up by 32.
\<close>

definition lower_char :: "char \<Rightarrow> char" where
  "lower_char c =
     (let n = (of_char c :: nat)
      in if (65 \<le> n \<and> n \<le> 90) \<or> (192 \<le> n \<and> n \<le> 222 \<and> n \<noteq> 215)
         then char_of (n + 32) else c)"

definition toLowerCase :: "string \<Rightarrow> string" where
  "toLowerCase s = map lower_char s"

text \<open>\<open>String.prototype.startsWith\<close>.\<close>

definition startsWith :: "string \<Rightarrow> string \<Rightarrow> bool" where
  "startsWith s p = prefix p s"

text \<open>\<open>String.prototype.includes\<close>.\<close>

fun str_includes :: "string \<Rightarrow> string \<Rightarrow> bool" where
  "str_includes [] sub = (sub = [])"
| "str_includes (c # cs) sub = (prefix sub (c # cs) \<or> str_includes cs sub)"

subsection \<open>encodeURIComponent\<close>

text \<open>
  The unreserved characters stay; every other code unit is written in UTF-8 (one byte
  below U+0080, two bytes from U+0080 to U+00FF) and each byte becomes \<open>%XX\<close> with
  upper-case hexadecimal digits. No code unit of this range is a surrogate, so the
  function raises no \<open>URIError\<close> here.
\<close>

definition uriUnreserved :: "char \<Rightarrow> bool" where
  "uriUnreserved c \<longleftrightarrow>
     c \<in> set (''ABCDEFGHIJKLMNOPQRSTUVWXYZabcdefghijklmnopqrstuvwxyz0123456789-_.!~*()'' @ [CHR 0x27])"

definition hexDigit :: "nat \<Rightarrow> char" where
  "hexDigit n = ''0123456789ABCDEF'' ! (n mod 16)"

definition percentByte :: "nat \<Rightarrow> string" where
  "percentByte b = [CHR ''%'', hexDigit (b div 16), hexDigit b]"

definition utf8 :: "nat \<Rightarrow> nat list" where
  "utf8 n = (if n < 128 then [n] else [192 + n div 64, 128 + n mod 64])"

definition encodeChar :: "char \<Rightarrow> string" where
  "encodeChar c = (if uriUnreserved c then [c] else concat (map percentByte (utf8 (of_char c))))"

definition encodeURIComponent :: "string \<Rightarrow> string" where
  "encodeURIComponent s = concat (map encodeChar s)"

section \<open>The platform: Date and Intl.DateTimeFormat\<close>

text \<open>
  \<open>new Date(value)\<close>, \<open>new Intl.DateTimeFormat(locale, options)\<close> and
  \<open>formatter.format(date)\<close> belong to the JavaScript engine, not to the repository:
  they are parameters of the model. The constructor and \<open>format\<close> may raise
  (a \<open>RangeError\<close> on a malformed language tag, an unknown time zone, an invalid date).
\<close>

record DateTimeFormatOptions =
  fmt_hour :: string
  fmt_minute :: string
  fmt_hour12 :: "bool option"
  fmt_timeZone :: "string option"

record ('d, 'f) platform =
  new_Date :: "string + js_number \<Rightarrow> 'd"
  new_DateTimeFormat :: "string option \<Rightarrow> DateTimeFormatOptions \<Rightarrow> js_error + 'f"
  DateTimeFormat_format :: "'f \<Rightarrow> 'd \<Rightarrow> js_error + string"

text \<open>The value of \<open>meetingDate\<close>: a \<open>Date\<close> object, a string or a number.\<close>

datatype 'd date_like = DateObject 'd | DateString string | DateNumber js_number

text \<open>\<open>!meetingDate\<close> for a value that is present: an object is always truthy.\<close>

fun falsy_date :: "'d date_like \<Rightarrow> bool" where
  "falsy_date (DateObject d) = False"
| "falsy_date (DateString s) = (s = [])"
| "falsy_date (DateNumber n) = (n = NaN \<or> n = Finite 0)"

text \<open>\<open>meetingDate instanceof Date ? meetingDate : new Date(meetingDate)\<close>.\<close>

fun to_Date :: "('d, 'f) platform \<Rightarrow> 'd date_like \<Rightarrow> 'd" where
  "to_Date plat (DateObject d) = d"
| "to_Date plat (DateString s) = new_Date plat (Inl s)"
| "to_Date plat (DateNumber n) = new_Date plat (Inr n)"

text \<open>\<open>try { body } catch { handler }\<close>: the handler replaces any exception of the body.\<close>

definition try_catch :: "'e + 'a \<Rightarrow> 'e + 'a \<Rightarrow> 'e + 'a" where
  "try_catch body handler = (case body of Inl e \<Rightarrow> handler | Inr v \<Rightarrow> Inr v)"

section \<open>formatMeetingTime\<close>

text \<open>
  The body of the \<open>try\<close> block: the formatter is constructed with \<open>locale || undefined\<close>
  and the fixed options, then applied to the date.
\<close>

definition format_attempt ::
  "('d, 'f) platform \<Rightarrow> 'd \<Rightarrow> string option \<Rightarrow> string option \<Rightarrow> bool option \<Rightarrow> js_error + string" where
  "format_attempt plat date locale timeZone hour12 =
     (case new_DateTimeFormat plat (or_undefined locale)
             \<lparr>fmt_hour = ''numeric'', fmt_minute = ''2-digit'',
              fmt_hour12 = hour12, fmt_timeZone = timeZone\<rparr> of
        Inl e \<Rightarrow> Inl e
      | Inr formatter \<Rightarrow> DateTimeFormat_format plat formatter date)"

text \<open>
  Line 127 returns a truthy \<open>meetingTimeText\<close>; line 128 returns the default for a falsy
  \<open>meetingDate\<close>; the rest formats inside \<open>try\<close>, and \<open>catch\<close> returns the default.
\<close>

definition formatMeetingTime ::
  "('d, 'f) platform \<Rightarrow> string option \<Rightarrow> 'd date_like option \<Rightarrow> string option \<Rightarrow>
   string option \<Rightarrow> bool option \<Rightarrow> js_error + string" where
  "formatMeetingTime plat meetingTimeText meetingDate locale timeZone hour12 =
     (case or_undefined meetingTimeText of
        Some given \<Rightarrow> Inr given
      | None \<Rightarrow>
         (case meetingDate of
            None \<Rightarrow> Inr ''5:30 PM''
          | Some md \<Rightarrow>
              if falsy_date md then Inr ''5:30 PM''
              else try_catch (format_attempt plat (to_Date plat md) locale timeZone hour12)
                     (Inr ''5:30 PM'')))"

section \<open>The banner component\<close>

datatype Palette = teal | emerald | green

text \<open>The language state \<open>'es' | 'en'\<close> of \<open>useState\<close>.\<close>

datatype lang = es | en

text \<open>
  \<open>MeetingBannerProps\<close>: every property is optional. The defaults of the destructuring
  pattern (lines 149 to 163) replace \<open>undefined\<close> only, so an empty string stays.
  The property \<open>locale\<close> is the field \<open>locale'\<close>.
\<close>

record 'd MeetingBannerProps =
  meetingTimeText :: "string option"
  meetingDate :: "'d date_like option"
  timeZone :: "string option"
  locale' :: "string option"
  hour12 :: "bool option"
  locationLabel :: "string option"
  palette :: "Palette option"
  logoSrc :: "string option"
  brandName :: "string option"
  titleText :: "string option"
  policyLines :: "string list option"
  className :: "string option"
  locationUrl :: "string option"
  locationCtaLabel :: "string option"
  openInNewTab :: "bool option"
  showLanguageToggle :: "bool option"
  googleMapsApiKey :: "string option"
  origin :: "string option"
  destination :: "string option"
  showMap :: "bool option"

text \<open>A destructuring default: \<open>{ x = d }\<close>.\<close>

fun default_to :: "'a option \<Rightarrow> 'a \<Rightarrow> 'a" where
  "default_to None d = d"
| "default_to (Some v) d = v"

definition locationLabel_of :: "'d MeetingBannerProps \<Rightarrow> string" where
  "locationLabel_of props = default_to (locationLabel props) ''Designated Meeting Point''"

definition openInNewTab_of :: "'d MeetingBannerProps \<Rightarrow> bool" where
  "openInNewTab_of props = default_to (openInNewTab props) True"

definition showLanguageToggle_of :: "'d MeetingBannerProps \<Rightarrow> bool" where
  "showLanguageToggle_of props = default_to (showLanguageToggle props) True"

definition origin_of :: "'d MeetingBannerProps \<Rightarrow> string" where
  "origin_of props = default_to (origin props)
     (''Corcovado Hiking Tours, Puerto Jim'' @ [CHR 0xE9] @ ''nez, Puntarenas, Costa Rica'')"

definition destination_of :: "'d MeetingBannerProps \<Rightarrow> string" where
  "destination_of props = default_to (destination props)
     (''Muelle P'' @ [CHR 0xFA] @ ''blico, Puerto Jim'' @ [CHR 0xE9] @ ''nez, Puntarenas, Costa Rica'')"

definition showMap_of :: "'d MeetingBannerProps \<Rightarrow> bool" where
  "showMap_of props = default_to (showMap props) True"

subsection \<open>State\<close>

text \<open>The initializer of \<open>useState\<close> (lines 165 to 168).\<close>

definition initialLang :: "'d MeetingBannerProps \<Rightarrow> lang" where
  "initialLang props =
     (let l = toLowerCase (or_str (locale' props) [])
      in if startsWith l ''es'' then es else en)"

text \<open>The updater the toggle button passes to \<open>setLang\<close> (line 365).\<close>

definition toggleLang :: "lang \<Rightarrow> lang" where
  "toggleLang prev = (if prev = es then en else es)"

subsection \<open>Derived values of a render\<close>

definition effectiveLocale :: "'d MeetingBannerProps \<Rightarrow> lang \<Rightarrow> string" where
  "effectiveLocale props lang = (if lang = es then ''es-ES'' else or_str (locale' props) ''en-US'')"

definition timeString ::
  "('d, 'f) platform \<Rightarrow> 'd MeetingBannerProps \<Rightarrow> lang \<Rightarrow> js_error + string" where
  "timeString plat props lang =
     formatMeetingTime plat (meetingTimeText props) (meetingDate props)
       (Some (effectiveLocale props lang)) (timeZone props) (hour12 props)"

definition isEs :: "lang \<Rightarrow> bool" where
  "isEs lang = (lang = es)"

definition title :: "'d MeetingBannerProps \<Rightarrow> lang \<Rightarrow> string" where
  "title props lang =
     or_str (titleText props) (if isEs lang then ''Hora de encuentro'' else ''Meeting Time'')"

definition ctaLabel :: "'d MeetingBannerProps \<Rightarrow> lang \<Rightarrow> string" where
  "ctaLabel props lang =
     or_str (locationCtaLabel props)
       (if isEs lang then ''Ver ubicaci'' @ [CHR 0xF3] @ ''n'' else ''View location'')"

definition defaultPolicyEn :: "string \<Rightarrow> string list" where
  "defaultPolicyEn ts =
     [''Please arrive at the designated meeting point by '' @ ts @ ''.'',
      ''Guests who do not arrive on time will forfeit the tour and all associated rights.'',
      ''Late arrivals are not eligible for refunds or claims.'']"

definition defaultPolicyEs :: "string \<Rightarrow> string list" where
  "defaultPolicyEs ts =
     [''Por favor, llegue al punto de encuentro a las '' @ ts @ ''.'',
      ''Los clientes que no lleguen a tiempo perder'' @ [CHR 0xE1]
        @ ''n el tour y los derechos asociados.'',
      ''Los retrasos no son reembolsables ni reclamables.'']"

text \<open>Lines 203 to 205: \<open>policyLines && policyLines.length > 0 ? policyLines : ...\<close>.\<close>

definition policy :: "'d MeetingBannerProps \<Rightarrow> lang \<Rightarrow> string \<Rightarrow> string list" where
  "policy props lang ts =
     (case policyLines props of
        Some ls \<Rightarrow>
          if length ls > 0 then ls
          else if isEs lang then defaultPolicyEs ts else defaultPolicyEn ts
      | None \<Rightarrow> if isEs lang then defaultPolicyEs ts else defaultPolicyEn ts)"

subsection \<open>Direction URLs\<close>

text \<open>The template literals of lines 293, 302, 333 and 337 (the last one again at 342).\<close>

definition embedSrc :: "string \<Rightarrow> string \<Rightarrow> string \<Rightarrow> string" where
  "embedSrc key orig dest =
     ''https://www.google.com/maps/embed/v1/directions?key='' @ encodeURIComponent key
       @ ''&origin='' @ encodeURIComponent orig
       @ ''&destination='' @ encodeURIComponent dest @ ''&mode=walking''"

definition routeHref :: "string \<Rightarrow> string \<Rightarrow> string" where
  "routeHref orig dest =
     ''https://www.google.com/maps/dir/?api=1&origin='' @ encodeURIComponent orig
       @ ''&destination='' @ encodeURIComponent dest @ ''&travelmode=walking''"

definition positionUrl :: "string \<Rightarrow> string \<Rightarrow> string \<Rightarrow> string" where
  "positionUrl latitude longitude dest =
     ''https://www.google.com/maps/dir/?api=1&origin='' @ latitude @ '','' @ longitude
       @ ''&destination='' @ encodeURIComponent dest @ ''&travelmode=walking''"

definition fallbackUrl :: "string \<Rightarrow> string" where
  "fallbackUrl dest =
     ''https://www.google.com/maps/dir/?api=1&origin=Current+Location&destination=''
       @ encodeURIComponent dest @ ''&travelmode=walking''"

subsection \<open>The rendered tree\<close>

text \<open>
  A rendered element has a tag, its attributes and its children. The attributes that
  only style the page (\<open>className\<close>, \<open>style\<close>) are left out, and with them the palette
  table; an attribute whose value is \<open>undefined\<close> is not rendered; a child
  \<open>{cond && element}\<close> with a falsy condition renders nothing. An icon component is an
  element without children.
\<close>

datatype node = Text string | Element string "(string \<times> string) list" "node list"

definition shown_if :: "bool \<Rightarrow> 'a list \<Rightarrow> 'a list" where
  "shown_if c xs = (if c then xs else [])"

definition brandBlock :: "'d MeetingBannerProps \<Rightarrow> node list" where
  "brandBlock props =
     shown_if (truthy (logoSrc props) \<or> truthy (brandName props))
       [Element ''div'' []
          (shown_if (truthy (logoSrc props))
             [Element ''img''
                [(''src'', or_str (logoSrc props) []),
                 (''alt'', or_str (brandName props) ''Brand logo'')] []]
           @ shown_if (truthy (brandName props))
             [Element ''span'' [] [Text (or_str (brandName props) [])]])]"

definition locationBlock :: "'d MeetingBannerProps \<Rightarrow> node list" where
  "locationBlock props =
     shown_if (locationLabel_of props \<noteq> [])
       [Element ''div'' []
          [Element ''FiMapPin'' [(''aria-hidden'', ''true'')] [],
           Element ''span'' [] [Text (locationLabel_of props)]]]"

definition primaryBlock :: "'d MeetingBannerProps \<Rightarrow> lang \<Rightarrow> string \<Rightarrow> node" where
  "primaryBlock props lang ts =
     Element ''div'' []
       [Element ''div'' [] [Element ''FiClock'' [(''aria-hidden'', ''true'')] []],
        Element ''h1'' []
          [Text (title props lang), Text '': '', Element ''span'' [] [Text ts]]]"

definition policyBlock :: "'d MeetingBannerProps \<Rightarrow> lang \<Rightarrow> string \<Rightarrow> node" where
  "policyBlock props lang ts =
     Element ''div'' []
       [Element ''div'' []
          [Element ''FiAlertCircle'' [(''aria-hidden'', ''true'')] [],
           Element ''p'' []
             (map (\<lambda>line. Element ''span'' [] [Text line]) (policy props lang ts))],
        Element ''div'' []
          [Element ''span'' [] [],
           Element ''span'' [] [Text ''Thank you for your punctuality and cooperation.'']]]"

definition mapBlock :: "'d MeetingBannerProps \<Rightarrow> lang \<Rightarrow> node list" where
  "mapBlock props lang =
     shown_if (showMap_of props)
       [Element ''div'' []
          [if truthy (googleMapsApiKey props) then
             Element ''div'' []
               [Element ''iframe''
                  [(''title'', ''Route map''), (''loading'', ''lazy''),
                   (''referrerPolicy'', ''no-referrer-when-downgrade''),
                   (''src'', embedSrc (or_str (googleMapsApiKey props) [])
                              (origin_of props) (destination_of props))] []]
           else
             Element ''div'' []
               [Element ''div'' []
                  [Text (if isEs lang then ''Ver ruta en Google Maps''
                         else ''View route in Google Maps'')],
                Element ''a''
                  ([(''href'', routeHref (origin_of props) (destination_of props))]
                   @ shown_if (openInNewTab_of props)
                       [(''target'', ''_blank''), (''rel'', ''noopener noreferrer'')])
                  [Text (if isEs lang
                         then ''Ver ruta desde Corcovado Hiking Tours en Google Maps''
                         else ''View route from Corcovado Hiking Tours in Google Maps'')]]]]"

definition clientRouteBlock :: "lang \<Rightarrow> node" where
  "clientRouteBlock lang =
     Element ''div'' []
       [Element ''div'' []
          [Text (if isEs lang then ''Ruta desde su ubicaci'' @ [CHR 0xF3] @ ''n''
                 else ''Route from your location'')],
        Element ''button'' [(''type'', ''button'')]
          [Text (if isEs lang then ''Iniciar ruta'' else ''Start route'')]]"

definition toggleBlock :: "'d MeetingBannerProps \<Rightarrow> lang \<Rightarrow> node list" where
  "toggleBlock props lang =
     shown_if (showLanguageToggle_of props)
       [Element ''div'' []
          [Element ''button''
             [(''type'', ''button''),
              (''aria-label'', if isEs lang then ''Cambiar a ingl'' @ [CHR 0xE9] @ ''s''
                               else ''Switch to Spanish'')]
             [Element ''span'' [] [Text (if isEs lang then ''ES'' else ''EN'')],
              Element ''span'' []
                [Text (if isEs lang then ''Espa'' @ [CHR 0xF1] @ ''ol'' else ''English'')]]]]"

text \<open>The JSX returned at lines 207 to 381, for a time string already computed.\<close>

definition bannerTree :: "'d MeetingBannerProps \<Rightarrow> lang \<Rightarrow> string \<Rightarrow> node" where
  "bannerTree props lang ts =
     Element ''main'' []
       ([Element ''section'' []
           [Element ''div'' []
              [Element ''div'' [] [],
               Element ''div'' []
                 (brandBlock props @ locationBlock props
                  @ [primaryBlock props lang ts, policyBlock props lang ts]
                  @ mapBlock props lang @ [clientRouteBlock lang])]]]
        @ toggleBlock props lang)"

text \<open>
  One render of the component in language state \<open>lang\<close>: an exception of
  \<open>formatMeetingTime\<close> would leave the render.
\<close>

definition MeetingBanner ::
  "('d, 'f) platform \<Rightarrow> 'd MeetingBannerProps \<Rightarrow> lang \<Rightarrow> js_error + node" where
  "MeetingBanner plat props lang =
     (case timeString plat props lang of
        Inl e \<Rightarrow> Inl e
      | Inr ts \<Rightarrow> Inr (bannerTree props lang ts))"

subsection \<open>The route button\<close>

text \<open>
  What the click handler of lines 328 to 345 meets: no \<open>geolocation\<close> in \<open>navigator\<close>, a
  position (the texts that \<open>${latitude}\<close> and \<open>${longitude}\<close> expand to), or the error
  callback. Its effect is one call \<open>window.open(url, target)\<close>.
\<close>

datatype geolocation = NoGeolocation | Position string string | PositionError

fun routeClick :: "'d MeetingBannerProps \<Rightarrow> geolocation \<Rightarrow> string \<times> string" where
  "routeClick props (Position latitude longitude) =
     (positionUrl latitude longitude (destination_of props),
      if openInNewTab_of props then ''_blank'' else ''_self'')"
| "routeClick props PositionError =
     (fallbackUrl (destination_of props),
      if openInNewTab_of props then ''_blank'' else ''_self'')"
| "routeClick props NoGeolocation =
     (fallbackUrl (destination_of props),
      if openInNewTab_of props then ''_blank'' else ''_self'')"

section \<open>The entry bootstrap\<close>

text \<open>
  The host page maps the id of an element to what is rendered in it. The bootstrap looks
  up \<open>root\<close>, throws when it is missing, and otherwise renders the banner with the
  properties of lines 26 to 33 in its initial state.
\<close>

type_synonym document = "string \<rightharpoonup> node list"

definition mainProps :: "'d MeetingBannerProps" where
  "mainProps =
     \<lparr>meetingTimeText = Some ''5:30 PM'', meetingDate = None, timeZone = None,
      locale' = Some ''es-ES'', hour12 = None,
      locationLabel = Some ''Designated Meeting Point'', palette = Some teal,
      logoSrc = None, brandName = Some ''MeetPoint Tours'', titleText = None,
      policyLines = None, className = None,
      locationUrl = Some ''https://maps.google.com/?q=Central%20Meeting%20Point'',
      locationCtaLabel = None, openInNewTab = None, showLanguageToggle = None,
      googleMapsApiKey = None, origin = None, destination = None, showMap = None\<rparr>"

definition bootstrap :: "('d, 'f) platform \<Rightarrow> document \<Rightarrow> js_error option \<times> document" where
  "bootstrap plat doc =
     (case doc ''root'' of
        None \<Rightarrow> (Some (Error ''Root element #root not found''), doc)
      | Some rootEl \<Rightarrow>
          (let props = mainProps
           in case MeetingBanner plat props (initialLang props) of
                Inl e \<Rightarrow> (Some e, doc)
              | Inr tree \<Rightarrow> (None, doc(''root'' \<mapsto> [tree]))))"

section \<open>Reading a rendered tree\<close>

text \<open>\<open>textContent\<close>, \<open>getElementsByTagName\<close> and \<open>getAttribute\<close> of the DOM.\<close>

fun textContent :: "node \<Rightarrow> string" where
  "textContent (Text s) = s"
| "textContent (Element tag attrs kids) = concat (map textContent kids)"

fun getElementsByTagName :: "string \<Rightarrow> node \<Rightarrow> node list" where
  "getElementsByTagName t (Text s) = []"
| "getElementsByTagName t (Element tag attrs kids) =
     (if tag = t then [Element tag attrs kids] else [])
     @ concat (map (getElementsByTagName t) kids)"

fun getAttribute :: "string \<Rightarrow> node \<Rightarrow> string option" where
  "getAttribute a (Text s) = None"
| "getAttribute a (Element tag attrs kids) = map_of attrs a"

fun childNodes :: "node \<Rightarrow> node list" where
  "childNodes (Text s) = []"
| "childNodes (Element tag attrs kids) = kids"

text \<open>The lines shown in the policy paragraph, one per \<open>span\<close>.\<close>

definition shownPolicy :: "node \<Rightarrow> string list" where
  "shownPolicy tree =
     map textContent (concat (map childNodes (getElementsByTagName ''p'' tree)))"

text \<open>The targets of the links and the sources of the inline frames of a tree.\<close>

definition renderedHrefs :: "node \<Rightarrow> string option list" where
  "renderedHrefs tree = map (getAttribute ''href'') (getElementsByTagName ''a'' tree)"

definition renderedSrcs :: "node \<Rightarrow> string option list" where
  "renderedSrcs tree = map (getAttribute ''src'') (getElementsByTagName ''iframe'' tree)"

section \<open>Reading the query of a URL\<close>

text \<open>
  The query is what stands between the first \<open>?\<close> and the fragment; it is split at
  \<open>&\<close> into pairs \<open>name=value\<close>. Values are read as written (still percent-encoded).
\<close>

fun split_acc :: "char \<Rightarrow> string \<Rightarrow> string \<Rightarrow> string list" where
  "split_acc sep acc [] = [rev acc]"
| "split_acc sep acc (c # cs) =
     (if c = sep then rev acc # split_acc sep [] cs else split_acc sep (c # acc) cs)"

definition str_split :: "string \<Rightarrow> char \<Rightarrow> string list" where
  "str_split s sep = split_acc sep [] s"

definition queryString :: "string \<Rightarrow> string" where
  "queryString url =
     takeWhile (\<lambda>c. c \<noteq> CHR ''#'') (drop 1 (dropWhile (\<lambda>c. c \<noteq> CHR ''?'') url))"

definition nameValue :: "string \<Rightarrow> string \<times> string" where
  "nameValue kv =
     (takeWhile (\<lambda>c. c \<noteq> CHR ''='') kv, drop 1 (dropWhile (\<lambda>c. c \<noteq> CHR ''='') kv))"

definition queryParams :: "string \<Rightarrow> (string \<times> string) list" where
  "queryParams url = map nameValue (str_split (queryString url) CHR ''&'')"

definition queryParam :: "string \<Rightarrow> string \<Rightarrow> string option" where
  "queryParam url name = map_of (queryParams url) name"

definition queryDelimiter :: "char \<Rightarrow> bool" where
  "queryDelimiter c \<longleftrightarrow> c = CHR ''&'' \<or> c = CHR ''='' \<or> c = CHR ''?'' \<or> c = CHR ''#''"

section \<open>Fixtures\<close>

text \<open>
  A stand-in for the platform, used where a property is evaluated on concrete input. A
  date is its time value and no string parses to one. The constructor rejects the empty
  language tag and the empty time zone, as ECMA-402 does, and accepts everything else,
  \<open>undefined\<close> (the default locale) included. \<open>format\<close> raises on the invalid date and
  prints midnight in the manner of the locale otherwise.
\<close>

definition stubPlatform :: "(js_number, string option) platform" where
  "stubPlatform =
     \<lparr>new_Date = (\<lambda>v. case v of Inl s \<Rightarrow> NaN | Inr n \<Rightarrow> n),
      new_DateTimeFormat =
        (\<lambda>loc opts. if loc = Some [] \<or> fmt_timeZone opts = Some [] then Inl RangeError
                     else Inr loc),
      DateTimeFormat_format =
        (\<lambda>formatter date. case date of
           NaN \<Rightarrow> Inl RangeError
         | Finite t \<Rightarrow> Inr (if formatter = Some ''es-ES'' then ''0:00'' else ''12:00 AM''))\<rparr>"

text \<open>
  The configuration \<open>{}\<close> and the one of the example scenario, with dates of the
  stand-in platform.
\<close>

definition emptyProps :: "js_number MeetingBannerProps" where
  "emptyProps =
     \<lparr>meetingTimeText = None, meetingDate = None, timeZone = None,
      locale' = None, hour12 = None, locationLabel = None, palette = None,
      logoSrc = None, brandName = None, titleText = None,
      policyLines = None, className = None, locationUrl = None,
      locationCtaLabel = None, openInNewTab = None, showLanguageToggle = None,
      googleMapsApiKey = None, origin = None, destination = None, showMap = None\<rparr>"

definition exampleProps :: "js_number MeetingBannerProps" where
  "exampleProps = emptyProps\<lparr>meetingTimeText := Some ''5:30 PM'', locale' := Some ''es-ES''\<rparr>"

text \<open>
  The specification's reading of the initializer of the language state: the locale starts
  with \<open>es\<close>, in either case of each letter.
\<close>

definition matchesSpanishPrefix :: "string \<Rightarrow> bool" where
  "matchesSpanishPrefix l =
     (case l of
        c1 # c2 # rest \<Rightarrow>
          (c1 = CHR ''e'' \<or> c1 = CHR ''E'') \<and> (c2 = CHR ''s'' \<or> c2 = CHR ''S'')
      | _ \<Rightarrow> False)"

section \<open>The time formatter\<close>

lemma formatMeetingTime_total:
  "\<exists>s. formatMeetingTime plat given md loc tz h12 = Inr s"
  by (auto simp: formatMeetingTime_def try_catch_def split: option.splits sum.splits)

text \<open>
  C2. A pre-supplied time text that is not the empty string is returned unchanged,
  whatever the date, the locale, the time zone and the hour cycle are.
\<close>

theorem supplied_text_returned:
  "given \<noteq> [] \<Longrightarrow> formatMeetingTime plat (Some given) md loc tz h12 = Inr given"
  by (simp add: formatMeetingTime_def)

theorem supplied_text_returned_witness:
  "''6:15 PM'' \<noteq> []
   \<and> formatMeetingTime stubPlatform (Some ''6:15 PM'') (Some (DateNumber (Finite 0)))
        (Some ''xx-invalid'') (Some []) (Some False) = Inr ''6:15 PM''"
  using supplied_text_returned
    [of "''6:15 PM''" stubPlatform "Some (DateNumber (Finite 0))" "Some ''xx-invalid''"
        "Some []" "Some False"]
  by simp

text \<open>
  The empty string is a string, and line 127 tests it for truthiness: supplied as the time
  text it is not returned, the default is.
\<close>

theorem empty_text_not_returned:
  "formatMeetingTime stubPlatform (Some []) None None None None = Inr ''5:30 PM''
   \<and> formatMeetingTime stubPlatform (Some []) None None None None \<noteq> Inr []"
  by (simp add: formatMeetingTime_def)

text \<open>
  C3. Without a time text (none, or the empty string) the formatter never raises. It
  returns the default \<open>5:30 PM\<close> when the date is absent, the empty string or \<open>NaN\<close>.
  For any other date but the number \<open>0\<close> it returns the default when the constructor,
  called with the locale (\<open>undefined\<close> in place of an empty one), the fixed options, the
  hour cycle and the time zone, raises, and when \<open>format\<close> raises on the date; otherwise
  it returns what \<open>format\<close> returns.
\<close>

theorem formatMeetingTime_without_text:
  assumes "\<not> truthy given"
  shows "(\<exists>s. formatMeetingTime plat given md loc tz h12 = Inr s)
    \<and> (md = None \<or> md = Some (DateString []) \<or> md = Some (DateNumber NaN)
         \<longrightarrow> formatMeetingTime plat given md loc tz h12 = Inr ''5:30 PM'')
    \<and> (\<forall>d e. md = Some d \<and> \<not> falsy_date d
           \<and> new_DateTimeFormat plat (or_undefined loc)
                \<lparr>fmt_hour = ''numeric'', fmt_minute = ''2-digit'', fmt_hour12 = h12,
                 fmt_timeZone = tz\<rparr> = Inl e
         \<longrightarrow> formatMeetingTime plat given md loc tz h12 = Inr ''5:30 PM'')
    \<and> (\<forall>d formatter e. md = Some d \<and> \<not> falsy_date d
           \<and> new_DateTimeFormat plat (or_undefined loc)
                \<lparr>fmt_hour = ''numeric'', fmt_minute = ''2-digit'', fmt_hour12 = h12,
                 fmt_timeZone = tz\<rparr> = Inr formatter
           \<and> DateTimeFormat_format plat formatter (to_Date plat d) = Inl e
         \<longrightarrow> formatMeetingTime plat given md loc tz h12 = Inr ''5:30 PM'')
    \<and> (\<forall>d formatter s. md = Some d \<and> \<not> falsy_date d
           \<and> new_DateTimeFormat plat (or_undefined loc)
                \<lparr>fmt_hour = ''numeric'', fmt_minute = ''2-digit'', fmt_hour12 = h12,
                 fmt_timeZone = tz\<rparr> = Inr formatter
           \<and> DateTimeFormat_format plat formatter (to_Date plat d) = Inr s
         \<longrightarrow> formatMeetingTime plat given md loc tz h12 = Inr s)"
proof -
  from assms have none: "or_undefined given = None"
    by (cases given) (auto split: if_splits)
  show ?thesis
    using formatMeetingTime_total [of plat given md loc tz h12]
    by (auto simp: none formatMeetingTime_def format_attempt_def try_catch_def)
qed

text \<open>
  On the stand-in platform: no date; a time zone the constructor rejects; a string that
  is no date; a date that formats.
\<close>

theorem formatMeetingTime_without_text_witness:
  "\<not> truthy None
   \<and> formatMeetingTime stubPlatform None None (Some ''en-US'') None None = Inr ''5:30 PM''
   \<and> formatMeetingTime stubPlatform None (Some (DateNumber (Finite 1000))) (Some ''en-US'')
        (Some []) None = Inr ''5:30 PM''
   \<and> formatMeetingTime stubPlatform None (Some (DateString ''soon'')) (Some ''en-US'')
        None None = Inr ''5:30 PM''
   \<and> formatMeetingTime stubPlatform None (Some (DateNumber (Finite 1000))) (Some ''en-US'')
        None None = Inr ''12:00 AM''"
  using
    formatMeetingTime_without_text
      [of None stubPlatform None "Some ''en-US''" None None]
    formatMeetingTime_without_text
      [of None stubPlatform "Some (DateNumber (Finite 1000))" "Some ''en-US''" "Some []" None]
    formatMeetingTime_without_text
      [of None stubPlatform "Some (DateString ''soon'')" "Some ''en-US''" None None]
    formatMeetingTime_without_text
      [of None stubPlatform "Some (DateNumber (Finite 1000))" "Some ''en-US''" None None]
  by (simp add: stubPlatform_def)

text \<open>
  The empty string is a locale the constructor rejects, yet line 131 passes \<open>undefined\<close>
  in its place: the date is formatted in the default locale and the result is not
  \<open>5:30 PM\<close>.
\<close>

theorem empty_locale_not_default:
  "new_DateTimeFormat stubPlatform (Some [])
      \<lparr>fmt_hour = ''numeric'', fmt_minute = ''2-digit'', fmt_hour12 = None,
       fmt_timeZone = None\<rparr> = Inl RangeError
   \<and> formatMeetingTime stubPlatform None (Some (DateNumber (Finite 1000))) (Some []) None None
       = Inr ''12:00 AM''"
  by (simp add: formatMeetingTime_def format_attempt_def try_catch_def stubPlatform_def)

text \<open>
  The timestamp \<open>0\<close> is a date that formats, but line 128 takes the falsy number for an
  absent date.
\<close>

lemma epoch_taken_for_absent:
  "format_attempt stubPlatform (to_Date stubPlatform (DateNumber (Finite 0))) (Some ''en-US'')
      None None = Inr ''12:00 AM''
   \<and> formatMeetingTime stubPlatform None (Some (DateNumber (Finite 0))) (Some ''en-US'')
        None None = Inr ''5:30 PM''"
  by (simp add: formatMeetingTime_def format_attempt_def stubPlatform_def)

section \<open>The language state\<close>

lemma toggleLang_twice: "toggleLang (toggleLang lang) = lang"
  by (cases lang) (simp_all add: toggleLang_def)

text \<open>
  C6. Two clicks on the language toggle give back the language state, and with it the
  title, the call-to-action label, the locale handed to the formatter, the time string,
  the policy lines and the whole rendered tree. One click does change the state.
\<close>

theorem toggle_twice_restores:
  "toggleLang lang \<noteq> lang
   \<and> toggleLang (toggleLang lang) = lang
   \<and> title props (toggleLang (toggleLang lang)) = title props lang
   \<and> ctaLabel props (toggleLang (toggleLang lang)) = ctaLabel props lang
   \<and> effectiveLocale props (toggleLang (toggleLang lang)) = effectiveLocale props lang
   \<and> timeString plat props (toggleLang (toggleLang lang)) = timeString plat props lang
   \<and> policy props (toggleLang (toggleLang lang)) ts = policy props lang ts
   \<and> MeetingBanner plat props (toggleLang (toggleLang lang)) = MeetingBanner plat props lang"
proof -
  have "toggleLang lang \<noteq> lang"
    by (cases lang) (simp_all add: toggleLang_def)
  then show ?thesis
    by (simp add: toggleLang_twice)
qed

text \<open>
  Lower-casing reaches a small ASCII letter from that letter and from its capital only.
\<close>

lemma lower_char_ascii:
  assumes x: "(of_char x :: nat) = m" and m: "97 \<le> m" "m \<le> 122"
  shows "lower_char c = x \<longleftrightarrow> c = x \<or> (of_char c :: nat) + 32 = m"
proof -
  define n where "n = (of_char c :: nat)"
  define up where "up \<longleftrightarrow> (65 \<le> n \<and> n \<le> 90) \<or> (192 \<le> n \<and> n \<le> 222 \<and> n \<noteq> 215)"
  have lc: "lower_char c = (if up then char_of (n + 32) else c)"
    by (simp add: lower_char_def Let_def n_def up_def)
  have eq: "c = x \<longleftrightarrow> n = m"
    unfolding n_def x[symmetric] by (metis of_char_eq_iff)
  show ?thesis
  proof (cases up)
    case True
    then have range: "n + 32 < 256" "n < 97 \<or> 122 < n"
      by (auto simp: up_def)
    then have tb: "take_bit 8 (n + 32) = n + 32"
      by (simp add: take_bit_nat_eq_self_iff)
    from True lc have "lower_char c = x \<longleftrightarrow> n + 32 = m"
      by (simp add: char_of_eq_iff tb x)
    moreover from range m have "n \<noteq> m" by auto
    ultimately show ?thesis using eq by (simp add: n_def)
  next
    case False
    then have "n + 32 \<noteq> m \<or> n = m"
      using m by (auto simp: up_def)
    moreover from False lc have "lower_char c = c" by simp
    ultimately show ?thesis using eq by (auto simp: n_def)
  qed
qed

lemma lower_char_e: "CHR ''e'' = lower_char c \<longleftrightarrow> c = CHR ''e'' \<or> c = CHR ''E''"
proof -
  have "(of_char c :: nat) = of_char CHR ''E'' \<longleftrightarrow> c = CHR ''E''"
    by (rule of_char_eq_iff)
  then have "(of_char c :: nat) + 32 = 101 \<longleftrightarrow> c = CHR ''E''"
    by simp
  then show ?thesis
    using lower_char_ascii [of "CHR ''e''" 101 c] by auto
qed

lemma lower_char_s: "CHR ''s'' = lower_char c \<longleftrightarrow> c = CHR ''s'' \<or> c = CHR ''S''"
proof -
  have "(of_char c :: nat) = of_char CHR ''S'' \<longleftrightarrow> c = CHR ''S''"
    by (rule of_char_eq_iff)
  then have "(of_char c :: nat) + 32 = 115 \<longleftrightarrow> c = CHR ''S''"
    by simp
  then show ?thesis
    using lower_char_ascii [of "CHR ''s''" 115 c] by auto
qed

lemma startsWith_es: "startsWith (toLowerCase l) ''es'' = matchesSpanishPrefix l"
proof (cases l)
  case Nil
  then show ?thesis
    by (simp add: startsWith_def toLowerCase_def matchesSpanishPrefix_def)
next
  case (Cons c1 r)
  then show ?thesis
    by (cases r)
      (simp_all add: startsWith_def toLowerCase_def matchesSpanishPrefix_def
         lower_char_e lower_char_s)
qed

lemma initialLang_matches:
  "initialLang props =
     (case locale' props of
        None \<Rightarrow> en
      | Some l \<Rightarrow> if matchesSpanishPrefix l then es else en)"
proof (cases "locale' props")
  case None
  then show ?thesis
    by (simp add: initialLang_def startsWith_def toLowerCase_def)
next
  case (Some l)
  show ?thesis
  proof (cases "l = []")
    case True
    with Some show ?thesis
      by (simp add: initialLang_def startsWith_def toLowerCase_def matchesSpanishPrefix_def)
  next
    case False
    with Some show ?thesis
      by (simp add: initialLang_def startsWith_es)
  qed
qed

text \<open>
  C7. The initial language is Spanish exactly when the configured locale starts with
  \<open>es\<close> in any letter case; it is English otherwise, also when no locale is configured.
\<close>

theorem initialLang_from_prefix:
  "initialLang props =
     (case locale' props of
        None \<Rightarrow> en
      | Some l \<Rightarrow> if matchesSpanishPrefix l then es else en)"
  by (rule initialLang_matches)

theorem initialLang_from_prefix_witness:
  "initialLang (emptyProps\<lparr>locale' := Some ''ES-mx''\<rparr>) = es
   \<and> initialLang (emptyProps\<lparr>locale' := Some ''en-GB''\<rparr>) = en
   \<and> initialLang (emptyProps\<lparr>locale' := Some ''e''\<rparr>) = en
   \<and> initialLang emptyProps = en"
  using initialLang_from_prefix [of "emptyProps\<lparr>locale' := Some ''ES-mx''\<rparr>"]
    initialLang_from_prefix [of "emptyProps\<lparr>locale' := Some ''en-GB''\<rparr>"]
    initialLang_from_prefix [of "emptyProps\<lparr>locale' := Some ''e''\<rparr>"]
    initialLang_from_prefix [of emptyProps]
  by (simp add: emptyProps_def matchesSpanishPrefix_def)

text \<open>
  C10. In the Spanish state the formatter receives \<open>es-ES\<close> whatever locale is
  configured. In the English state it receives the configured locale unchanged when that
  is a non-empty string, and \<open>en-US\<close> when no locale or the empty string is configured.
  The locale it receives is never empty, so the constructor gets it as it is.
\<close>

theorem effectiveLocale_asymmetric:
  "effectiveLocale props es = ''es-ES''
   \<and> effectiveLocale props en =
       (case locale' props of None \<Rightarrow> ''en-US'' | Some l \<Rightarrow> if l = [] then ''en-US'' else l)
   \<and> timeString plat props lang =
       formatMeetingTime plat (meetingTimeText props) (meetingDate props)
         (Some (effectiveLocale props lang)) (timeZone props) (hour12 props)
   \<and> or_undefined (Some (effectiveLocale props lang)) = Some (effectiveLocale props lang)"
  by (cases lang) (auto simp: effectiveLocale_def timeString_def split: option.splits)

text \<open>
  A French locale in the Spanish state; a Mexican locale in the English state, where the
  title is English and the time is formatted for \<open>es-MX\<close>; no locale.
\<close>

theorem effectiveLocale_asymmetric_witness:
  "effectiveLocale (emptyProps\<lparr>locale' := Some ''fr-FR''\<rparr>) es = ''es-ES''
   \<and> effectiveLocale (emptyProps\<lparr>locale' := Some ''es-MX''\<rparr>) en = ''es-MX''
   \<and> title (emptyProps\<lparr>locale' := Some ''es-MX''\<rparr>) en = ''Meeting Time''
   \<and> effectiveLocale emptyProps en = ''en-US''"
  using
    effectiveLocale_asymmetric
      [where props = "emptyProps\<lparr>locale' := Some ''fr-FR''\<rparr>" and plat = stubPlatform
         and lang = es]
    effectiveLocale_asymmetric
      [where props = "emptyProps\<lparr>locale' := Some ''es-MX''\<rparr>" and plat = stubPlatform
         and lang = en]
    effectiveLocale_asymmetric
      [where props = emptyProps and plat = stubPlatform and lang = en]
  by (simp add: emptyProps_def title_def isEs_def)

text \<open>
  A locale configured as the empty string does not reach the formatter: \<open>en-US\<close> does.
\<close>

theorem empty_locale_replaced:
  "locale' (emptyProps\<lparr>locale' := Some []\<rparr>) = Some []
   \<and> effectiveLocale (emptyProps\<lparr>locale' := Some []\<rparr>) en = ''en-US''"
  by (simp add: effectiveLocale_def emptyProps_def)

section \<open>The rendered banner\<close>

lemma timeString_total: "\<exists>ts. timeString plat props lang = Inr ts"
  unfolding timeString_def by (rule formatMeetingTime_total)

text \<open>Every render returns a tree.\<close>

lemma MeetingBanner_renders:
  "\<exists>ts. timeString plat props lang = Inr ts
        \<and> MeetingBanner plat props lang = Inr (bannerTree props lang ts)"
  using timeString_total [of plat props lang] by (auto simp: MeetingBanner_def)

lemmas block_defs =
  bannerTree_def brandBlock_def locationBlock_def primaryBlock_def policyBlock_def
  mapBlock_def clientRouteBlock_def toggleBlock_def shown_if_def

lemma no_p_in_spans:
  "concat (map (getElementsByTagName ''p'')
     (map (\<lambda>line. Element ''span'' [] [Text line]) ls)) = []"
  by (induction ls) simp_all

lemma no_a_in_spans:
  "concat (map (getElementsByTagName ''a'')
     (map (\<lambda>line. Element ''span'' [] [Text line]) ls)) = []"
  by (induction ls) simp_all

lemma no_iframe_in_spans:
  "concat (map (getElementsByTagName ''iframe'')
     (map (\<lambda>line. Element ''span'' [] [Text line]) ls)) = []"
  by (induction ls) simp_all

lemma paragraph_of_tree:
  "getElementsByTagName ''p'' (bannerTree props lang ts)
     = [Element ''p'' [] (map (\<lambda>line. Element ''span'' [] [Text line]) (policy props lang ts))]"
  by (simp add: block_defs no_p_in_spans)

lemma shownPolicy_tree: "shownPolicy (bannerTree props lang ts) = policy props lang ts"
  by (simp add: shownPolicy_def paragraph_of_tree comp_def)

lemma links_of_tree:
  "renderedHrefs (bannerTree props lang ts)
     = (if showMap_of props \<and> \<not> truthy (googleMapsApiKey props)
        then [Some (routeHref (origin_of props) (destination_of props))] else [])"
  by (simp add: renderedHrefs_def block_defs no_a_in_spans)

lemma frames_of_tree:
  "renderedSrcs (bannerTree props lang ts)
     = (if showMap_of props \<and> truthy (googleMapsApiKey props)
        then [Some (embedSrc (or_str (googleMapsApiKey props) []) (origin_of props)
                      (destination_of props))]
        else [])"
  by (simp add: renderedSrcs_def block_defs no_iframe_in_spans)

lemma link_count:
  "length (getElementsByTagName ''a'' (bannerTree props lang ts))
     = (if showMap_of props \<and> \<not> truthy (googleMapsApiKey props) then 1 else 0)"
  by (simp add: block_defs no_a_in_spans)

lemma frame_count:
  "length (getElementsByTagName ''iframe'' (bannerTree props lang ts))
     = (if showMap_of props \<and> truthy (googleMapsApiKey props) then 1 else 0)"
  by (simp add: block_defs no_iframe_in_spans)

subsection \<open>The example scenario\<close>

lemma example_render:
  "MeetingBanner plat exampleProps es = Inr (bannerTree exampleProps es ''5:30 PM'')"
  by (simp add: MeetingBanner_def timeString_def formatMeetingTime_def exampleProps_def
        emptyProps_def)

lemma example_initialLang: "initialLang exampleProps = es"
  by (simp add: initialLang_matches exampleProps_def emptyProps_def matchesSpanishPrefix_def)

lemma example_policy:
  "shownPolicy (bannerTree exampleProps es ''5:30 PM'') = defaultPolicyEs ''5:30 PM''"
  by (simp add: shownPolicy_tree policy_def isEs_def exampleProps_def emptyProps_def)

text \<open>
  C1. With \<open>{meetingTimeText: "5:30 PM", locale: "es-ES"}\<close> the initial language is
  Spanish, the heading reads \<open>Hora de encuentro: 5:30 PM\<close>, and the three default
  Spanish policy lines are shown; the first of them contains \<open>5:30 PM\<close>, the second and
  the third are fixed sentences without the time.
\<close>

theorem example_scenario:
  "initialLang exampleProps = es
   \<and> MeetingBanner plat exampleProps (initialLang exampleProps)
       = Inr (bannerTree exampleProps es ''5:30 PM'')
   \<and> map textContent (getElementsByTagName ''h1'' (bannerTree exampleProps es ''5:30 PM''))
       = [''Hora de encuentro: 5:30 PM'']
   \<and> shownPolicy (bannerTree exampleProps es ''5:30 PM'')
       = [''Por favor, llegue al punto de encuentro a las 5:30 PM.'',
          ''Los clientes que no lleguen a tiempo perder'' @ [CHR 0xE1]
            @ ''n el tour y los derechos asociados.'',
          ''Los retrasos no son reembolsables ni reclamables.'']
   \<and> str_includes (shownPolicy (bannerTree exampleProps es ''5:30 PM'') ! 0) ''5:30 PM''
   \<and> \<not> str_includes (shownPolicy (bannerTree exampleProps es ''5:30 PM'') ! 1) ''5:30 PM''
   \<and> \<not> str_includes (shownPolicy (bannerTree exampleProps es ''5:30 PM'') ! 2) ''5:30 PM''"
proof -
  have h1: "map textContent (getElementsByTagName ''h1'' (bannerTree exampleProps es ''5:30 PM''))
       = [''Hora de encuentro: 5:30 PM'']"
    by (simp add: block_defs title_def isEs_def exampleProps_def emptyProps_def
          locationLabel_of_def showMap_of_def showLanguageToggle_of_def openInNewTab_of_def)
  show ?thesis
    by (simp add: example_render example_initialLang example_policy h1 defaultPolicyEs_def)
qed

text \<open>The second policy line of the example does not contain the time.\<close>

theorem example_second_line_without_time:
  "MeetingBanner stubPlatform exampleProps (initialLang exampleProps)
     = Inr (bannerTree exampleProps es ''5:30 PM'')
   \<and> \<not> str_includes (shownPolicy (bannerTree exampleProps es ''5:30 PM'') ! 1) ''5:30 PM''"
  by (simp add: example_render example_initialLang example_policy defaultPolicyEs_def)

subsection \<open>The policy paragraph\<close>

text \<open>
  C4. When a non-empty list of policy lines is supplied, the policy paragraph shows
  exactly those lines, one per \<open>span\<close>, verbatim and in order, in either language
  state: no line of a default policy is added.
\<close>

theorem explicit_policy_shown:
  assumes "policyLines props = Some ls" and "ls \<noteq> []"
  shows "\<exists>tree. MeetingBanner plat props lang = Inr tree
           \<and> shownPolicy tree = ls
           \<and> concat (map childNodes (getElementsByTagName ''p'' tree))
               = map (\<lambda>line. Element ''span'' [] [Text line]) ls"
proof -
  from assms have "policy props lang ts = ls" for ts
    by (simp add: policy_def)
  then show ?thesis
    using MeetingBanner_renders [of plat props lang]
    by (auto simp: shownPolicy_tree paragraph_of_tree)
qed

theorem explicit_policy_shown_witness:
  "policyLines (emptyProps\<lparr>policyLines := Some [''Be on time.'', ''No refunds.'']\<rparr>)
     = Some [''Be on time.'', ''No refunds.'']
   \<and> [''Be on time.'', ''No refunds.''] \<noteq> []
   \<and> (\<exists>tree. MeetingBanner stubPlatform
                (emptyProps\<lparr>policyLines := Some [''Be on time.'', ''No refunds.'']\<rparr>) es
              = Inr tree
          \<and> shownPolicy tree = [''Be on time.'', ''No refunds.''])"
  using explicit_policy_shown
    [where props = "emptyProps\<lparr>policyLines := Some [''Be on time.'', ''No refunds.'']\<rparr>"
       and ls = "[''Be on time.'', ''No refunds.'']" and plat = stubPlatform and lang = es]
  by auto

text \<open>
  An explicit list without lines fails the test \<open>policyLines.length > 0\<close> of line 203:
  the default policy of the language is shown instead of nothing.
\<close>

theorem empty_policyLines_ignored:
  "MeetingBanner stubPlatform (emptyProps\<lparr>policyLines := Some []\<rparr>) en
     = Inr (bannerTree (emptyProps\<lparr>policyLines := Some []\<rparr>) en ''5:30 PM'')
   \<and> shownPolicy (bannerTree (emptyProps\<lparr>policyLines := Some []\<rparr>) en ''5:30 PM'')
     = defaultPolicyEn ''5:30 PM''
   \<and> shownPolicy (bannerTree (emptyProps\<lparr>policyLines := Some []\<rparr>) en ''5:30 PM'') \<noteq> []"
  by (simp add: shownPolicy_tree policy_def isEs_def defaultPolicyEn_def emptyProps_def
        MeetingBanner_def timeString_def formatMeetingTime_def)

section \<open>Direction URLs\<close>

text \<open>
  \<open>encodeURIComponent\<close> writes no character that delimits a query, so an encoded value
  stays one value.
\<close>

lemma hexDigit_not_delim: "\<not> queryDelimiter (hexDigit n)"
proof -
  have "hexDigit n \<in> set ''0123456789ABCDEF''"
    unfolding hexDigit_def by (rule nth_mem) simp
  then show ?thesis by (auto simp: queryDelimiter_def)
qed

lemma percentByte_not_delim: "c \<in> set (percentByte b) \<Longrightarrow> \<not> queryDelimiter c"
  using hexDigit_not_delim by (auto simp: percentByte_def queryDelimiter_def)

lemma encodeChar_not_delim: "c \<in> set (encodeChar x) \<Longrightarrow> \<not> queryDelimiter c"
proof (cases "uriUnreserved x")
  case True
  assume "c \<in> set (encodeChar x)"
  with True have "c = x" by (simp add: encodeChar_def)
  with True show ?thesis by (auto simp: uriUnreserved_def queryDelimiter_def)
next
  case False
  assume "c \<in> set (encodeChar x)"
  with False show ?thesis
    by (auto simp: encodeChar_def dest: percentByte_not_delim)
qed

lemma encodeURIComponent_not_delim:
  "c \<in> set (encodeURIComponent s) \<Longrightarrow> \<not> queryDelimiter c"
  by (auto simp: encodeURIComponent_def dest: encodeChar_not_delim)

lemma no_delim:
  assumes "\<And>c. c \<in> set a \<Longrightarrow> \<not> queryDelimiter c"
  shows "CHR ''&'' \<notin> set a" "CHR ''='' \<notin> set a" "CHR ''?'' \<notin> set a" "CHR ''#'' \<notin> set a"
  using assms by (auto simp: queryDelimiter_def)

lemmas encoded_clean = no_delim [OF encodeURIComponent_not_delim]

lemma split_acc_no_sep: "sep \<notin> set w \<Longrightarrow> split_acc sep acc w = [rev acc @ w]"
  by (induction w arbitrary: acc) auto

lemma split_acc_sep:
  "sep \<notin> set w \<Longrightarrow> split_acc sep acc (w @ sep # rest) = (rev acc @ w) # split_acc sep [] rest"
  by (induction w arbitrary: acc) auto

lemma takeWhile_pre:
  "x \<notin> set a \<Longrightarrow> takeWhile (\<lambda>c. c \<noteq> x) (a @ r) = a @ takeWhile (\<lambda>c. c \<noteq> x) r"
  by (induction a) auto

lemma dropWhile_pre:
  "x \<notin> set a \<Longrightarrow> dropWhile (\<lambda>c. c \<noteq> x) (a @ r) = dropWhile (\<lambda>c. c \<noteq> x) r"
  by (induction a) auto

lemmas query_simps =
  queryParams_def queryString_def str_split_def nameValue_def
  takeWhile_pre dropWhile_pre split_acc_sep split_acc_no_sep encoded_clean

lemma queryParams_routeHref:
  "queryParams (routeHref orig dest)
     = [(''api'', ''1''), (''origin'', encodeURIComponent orig),
        (''destination'', encodeURIComponent dest), (''travelmode'', ''walking'')]"
  by (simp add: routeHref_def query_simps)

lemma queryParams_embedSrc:
  "queryParams (embedSrc key orig dest)
     = [(''key'', encodeURIComponent key), (''origin'', encodeURIComponent orig),
        (''destination'', encodeURIComponent dest), (''mode'', ''walking'')]"
  by (simp add: embedSrc_def query_simps)

lemma queryParams_fallbackUrl:
  "queryParams (fallbackUrl dest)
     = [(''api'', ''1''), (''origin'', ''Current+Location''),
        (''destination'', encodeURIComponent dest), (''travelmode'', ''walking'')]"
  by (simp add: fallbackUrl_def query_simps)

lemma queryParams_positionUrl:
  assumes "\<And>c. c \<in> set latitude \<Longrightarrow> \<not> queryDelimiter c"
      and "\<And>c. c \<in> set longitude \<Longrightarrow> \<not> queryDelimiter c"
  shows "queryParams (positionUrl latitude longitude dest)
     = [(''api'', ''1''), (''origin'', latitude @ '','' @ longitude),
        (''destination'', encodeURIComponent dest), (''travelmode'', ''walking'')]"
proof -
  have "\<not> queryDelimiter c" if "c \<in> set (latitude @ '','' @ longitude)" for c
    using that assms by (auto simp: queryDelimiter_def)
  note clean = no_delim [OF this]
  have "positionUrl latitude longitude dest
      = ''https://www.google.com/maps/dir/?api=1&origin='' @ (latitude @ '','' @ longitude)
        @ ''&destination='' @ encodeURIComponent dest @ ''&travelmode=walking''"
    by (simp add: positionUrl_def)
  then show ?thesis
    using clean by (simp add: query_simps del: append_assoc set_append)
qed

text \<open>
  C5. Every render returns a tree. With the map shown (the default) and no key, or the
  empty key, the tree holds exactly one link, to the walking route, and no inline frame.
  With the map shown and a non-empty key it holds exactly one inline frame, whose URL
  carries the encoded key, origin and destination and the mode \<open>walking\<close>, and no link.
  With the map hidden it holds neither.
\<close>

theorem map_section:
  "\<exists>tree. MeetingBanner plat props lang = Inr tree
     \<and> (showMap_of props \<and> \<not> truthy (googleMapsApiKey props) \<longrightarrow>
          renderedHrefs tree = [Some (routeHref (origin_of props) (destination_of props))]
          \<and> length (getElementsByTagName ''a'' tree) = 1
          \<and> getElementsByTagName ''iframe'' tree = [])
     \<and> (\<forall>key. showMap_of props \<and> googleMapsApiKey props = Some key \<and> key \<noteq> [] \<longrightarrow>
          renderedSrcs tree = [Some (embedSrc key (origin_of props) (destination_of props))]
          \<and> length (getElementsByTagName ''iframe'' tree) = 1
          \<and> getElementsByTagName ''a'' tree = []
          \<and> queryParam (embedSrc key (origin_of props) (destination_of props)) ''key''
              = Some (encodeURIComponent key)
          \<and> queryParam (embedSrc key (origin_of props) (destination_of props)) ''origin''
              = Some (encodeURIComponent (origin_of props))
          \<and> queryParam (embedSrc key (origin_of props) (destination_of props)) ''destination''
              = Some (encodeURIComponent (destination_of props))
          \<and> queryParam (embedSrc key (origin_of props) (destination_of props)) ''mode''
              = Some ''walking'')
     \<and> (\<not> showMap_of props \<longrightarrow>
          getElementsByTagName ''a'' tree = [] \<and> getElementsByTagName ''iframe'' tree = [])"
proof -
  obtain ts where "MeetingBanner plat props lang = Inr (bannerTree props lang ts)"
    using MeetingBanner_renders [of plat props lang] by blast
  moreover have "length (getElementsByTagName ''a'' (bannerTree props lang ts)) = 0
      \<longleftrightarrow> getElementsByTagName ''a'' (bannerTree props lang ts) = []"
    by simp
  moreover have "length (getElementsByTagName ''iframe'' (bannerTree props lang ts)) = 0
      \<longleftrightarrow> getElementsByTagName ''iframe'' (bannerTree props lang ts) = []"
    by simp
  ultimately show ?thesis
    using link_count [of props lang ts] frame_count [of props lang ts]
      links_of_tree [of props lang ts] frames_of_tree [of props lang ts]
    by (auto simp: queryParam_def queryParams_embedSrc simp del: length_0_conv)
qed

text \<open>No key; the key \<open>KEY\<close>; the map hidden.\<close>

theorem map_section_witness:
  "showMap_of emptyProps \<and> \<not> truthy (googleMapsApiKey emptyProps)
   \<and> showMap_of (emptyProps\<lparr>googleMapsApiKey := Some ''KEY''\<rparr>)
   \<and> \<not> showMap_of (emptyProps\<lparr>showMap := Some False\<rparr>)
   \<and> (\<exists>tree. MeetingBanner stubPlatform emptyProps en = Inr tree
         \<and> length (getElementsByTagName ''a'' tree) = 1
         \<and> getElementsByTagName ''iframe'' tree = [])
   \<and> (\<exists>tree. MeetingBanner stubPlatform (emptyProps\<lparr>googleMapsApiKey := Some ''KEY''\<rparr>) en
           = Inr tree
         \<and> length (getElementsByTagName ''iframe'' tree) = 1
         \<and> getElementsByTagName ''a'' tree = [])
   \<and> (\<exists>tree. MeetingBanner stubPlatform (emptyProps\<lparr>showMap := Some False\<rparr>) en = Inr tree
         \<and> getElementsByTagName ''a'' tree = []
         \<and> getElementsByTagName ''iframe'' tree = [])"
proof -
  have hyps: "showMap_of emptyProps" "\<not> truthy (googleMapsApiKey emptyProps)"
    "showMap_of (emptyProps\<lparr>googleMapsApiKey := Some ''KEY''\<rparr>)"
    "googleMapsApiKey (emptyProps\<lparr>googleMapsApiKey := Some ''KEY''\<rparr>) = Some ''KEY''"
    "\<not> showMap_of (emptyProps\<lparr>showMap := Some False\<rparr>)"
    by (simp_all add: showMap_of_def emptyProps_def)
  show ?thesis
    using hyps
      map_section [where plat = stubPlatform and props = emptyProps and lang = en]
      map_section [where plat = stubPlatform
        and props = "emptyProps\<lparr>googleMapsApiKey := Some ''KEY''\<rparr>" and lang = en]
      map_section [where plat = stubPlatform
        and props = "emptyProps\<lparr>showMap := Some False\<rparr>" and lang = en]
    by (auto simp del: length_0_conv)
qed

text \<open>
  With \<open>showMap\<close> false the whole map block is left out (line 284): no key is
  configured, and still the tree holds no link.
\<close>

theorem hidden_map_has_no_link:
  "googleMapsApiKey (emptyProps\<lparr>showMap := Some False\<rparr>) = None
   \<and> MeetingBanner stubPlatform (emptyProps\<lparr>showMap := Some False\<rparr>) en
       = Inr (bannerTree (emptyProps\<lparr>showMap := Some False\<rparr>) en ''5:30 PM'')
   \<and> getElementsByTagName ''a'' (bannerTree (emptyProps\<lparr>showMap := Some False\<rparr>) en ''5:30 PM'')
       = []"
proof -
  have "length (getElementsByTagName ''a''
          (bannerTree (emptyProps\<lparr>showMap := Some False\<rparr>) en ''5:30 PM'')) = 0"
    by (simp add: link_count showMap_of_def emptyProps_def)
  then show ?thesis
    by (simp add: MeetingBanner_def timeString_def formatMeetingTime_def emptyProps_def)
qed

text \<open>
  C8. The URL of every inline frame and of every link of a rendered tree has the encoded
  origin and the encoded destination as its query parameters \<open>origin\<close> and
  \<open>destination\<close>, and the travel mode \<open>walking\<close> (the parameter \<open>mode\<close> of a frame,
  \<open>travelmode\<close> of a link). The URL the route button opens when there is no geolocation
  or no position has the encoded destination and \<open>travelmode=walking\<close> too, and the
  placeholder \<open>Current+Location\<close> as its origin. The URL it opens for a position
  has them as well, and the coordinates as its origin, when their texts hold no query
  delimiter (the decimal text of a number holds none).
\<close>

theorem direction_urls:
  "\<exists>tree. MeetingBanner plat props lang = Inr tree
     \<and> (\<forall>url. Some url \<in> set (renderedSrcs tree) \<longrightarrow>
          queryParam url ''origin'' = Some (encodeURIComponent (origin_of props))
          \<and> queryParam url ''destination'' = Some (encodeURIComponent (destination_of props))
          \<and> queryParam url ''mode'' = Some ''walking'')
     \<and> (\<forall>url. Some url \<in> set (renderedHrefs tree) \<longrightarrow>
          queryParam url ''origin'' = Some (encodeURIComponent (origin_of props))
          \<and> queryParam url ''destination'' = Some (encodeURIComponent (destination_of props))
          \<and> queryParam url ''travelmode'' = Some ''walking'')
     \<and> (\<forall>geo. geo = NoGeolocation \<or> geo = PositionError \<longrightarrow>
          queryParam (fst (routeClick props geo)) ''origin'' = Some ''Current+Location''
          \<and> queryParam (fst (routeClick props geo)) ''destination''
              = Some (encodeURIComponent (destination_of props))
          \<and> queryParam (fst (routeClick props geo)) ''travelmode'' = Some ''walking'')
     \<and> (\<forall>latitude longitude.
          (\<forall>c \<in> set (latitude @ longitude). \<not> queryDelimiter c) \<longrightarrow>
          queryParam (fst (routeClick props (Position latitude longitude))) ''origin''
              = Some (latitude @ '','' @ longitude)
          \<and> queryParam (fst (routeClick props (Position latitude longitude))) ''destination''
              = Some (encodeURIComponent (destination_of props))
          \<and> queryParam (fst (routeClick props (Position latitude longitude))) ''travelmode''
              = Some ''walking'')"
proof -
  obtain ts where "MeetingBanner plat props lang = Inr (bannerTree props lang ts)"
    using MeetingBanner_renders [of plat props lang] by blast
  then show ?thesis
    by (auto simp: links_of_tree frames_of_tree queryParam_def queryParams_embedSrc
          queryParams_routeHref queryParams_fallbackUrl queryParams_positionUrl
          split: if_splits)
qed

text \<open>
  An origin and a destination with characters that would cut a query: in the link, in
  the frame of the key \<open>KEY\<close>, and in the fallback of the route button.
\<close>

theorem direction_urls_witness:
  "Some (routeHref ''Hotel A&B'' ''Pier #1'')
     \<in> set (renderedHrefs (bannerTree
          (emptyProps\<lparr>origin := Some ''Hotel A&B'', destination := Some ''Pier #1''\<rparr>)
          en ''5:30 PM''))
   \<and> queryParam (routeHref ''Hotel A&B'' ''Pier #1'') ''origin'' = Some ''Hotel%20A%26B''
   \<and> queryParam (routeHref ''Hotel A&B'' ''Pier #1'') ''destination'' = Some ''Pier%20%231''
   \<and> queryParam (routeHref ''Hotel A&B'' ''Pier #1'') ''travelmode'' = Some ''walking''
   \<and> Some (embedSrc ''KEY'' ''Hotel A&B'' ''Pier #1'')
     \<in> set (renderedSrcs (bannerTree
          (emptyProps\<lparr>origin := Some ''Hotel A&B'', destination := Some ''Pier #1'',
             googleMapsApiKey := Some ''KEY''\<rparr>)
          en ''5:30 PM''))
   \<and> queryParam (embedSrc ''KEY'' ''Hotel A&B'' ''Pier #1'') ''origin'' = Some ''Hotel%20A%26B''
   \<and> queryParam (embedSrc ''KEY'' ''Hotel A&B'' ''Pier #1'') ''mode'' = Some ''walking''
   \<and> queryParam (fst (routeClick
          (emptyProps\<lparr>origin := Some ''Hotel A&B'', destination := Some ''Pier #1''\<rparr>)
          NoGeolocation)) ''destination'' = Some ''Pier%20%231''
   \<and> queryParam (fst (routeClick
          (emptyProps\<lparr>origin := Some ''Hotel A&B'', destination := Some ''Pier #1''\<rparr>)
          (Position ''8.5381'' ''-83.3046''))) ''origin'' = Some ''8.5381,-83.3046''
   \<and> queryParam (fst (routeClick
          (emptyProps\<lparr>origin := Some ''Hotel A&B'', destination := Some ''Pier #1''\<rparr>)
          (Position ''8.5381'' ''-83.3046''))) ''destination'' = Some ''Pier%20%231''"
proof -
  define props where
    "props = emptyProps\<lparr>origin := Some ''Hotel A&B'', destination := Some ''Pier #1''\<rparr>"
  define keyed where "keyed = props\<lparr>googleMapsApiKey := Some ''KEY''\<rparr>"
  have render: "MeetingBanner stubPlatform props en = Inr (bannerTree props en ''5:30 PM'')"
    "MeetingBanner stubPlatform keyed en = Inr (bannerTree keyed en ''5:30 PM'')"
    by (simp_all add: keyed_def props_def MeetingBanner_def timeString_def
          formatMeetingTime_def emptyProps_def)
  have od: "origin_of props = ''Hotel A&B''" "destination_of props = ''Pier #1''"
    "showMap_of props" "\<not> truthy (googleMapsApiKey props)"
    "origin_of keyed = ''Hotel A&B''" "destination_of keyed = ''Pier #1''"
    "showMap_of keyed" "googleMapsApiKey keyed = Some ''KEY''"
    by (simp_all add: keyed_def props_def origin_of_def destination_of_def showMap_of_def
          emptyProps_def)
  have enc: "encodeURIComponent ''Hotel A&B'' = ''Hotel%20A%26B''"
    "encodeURIComponent ''Pier #1'' = ''Pier%20%231''"
    by code_simp+
  have link: "Some (routeHref ''Hotel A&B'' ''Pier #1'')
      \<in> set (renderedHrefs (bannerTree props en ''5:30 PM''))"
    by (simp add: links_of_tree od)
  have frame: "Some (embedSrc ''KEY'' ''Hotel A&B'' ''Pier #1'')
      \<in> set (renderedSrcs (bannerTree keyed en ''5:30 PM''))"
    by (simp add: frames_of_tree od)
  have coords: "\<forall>c \<in> set (''8.5381'' @ ''-83.3046''). \<not> queryDelimiter c"
    by (simp add: queryDelimiter_def)
  show ?thesis
    using direction_urls [where plat = stubPlatform and props = props and lang = en]
      direction_urls [where plat = stubPlatform and props = keyed and lang = en]
      link frame render coords
    unfolding keyed_def [symmetric] props_def [symmetric]
    by (auto simp: od enc)
qed

text \<open>
  The fallback of the route button starts from the placeholder, not from the configured
  origin: the encoded default origin occurs nowhere in its URL.
\<close>

theorem fallback_link_without_origin:
  "queryParam (fst (routeClick emptyProps PositionError)) ''origin'' = Some ''Current+Location''
   \<and> encodeURIComponent (origin_of emptyProps)
       = ''Corcovado%20Hiking%20Tours%2C%20Puerto%20Jim%C3%A9nez%2C%20Puntarenas%2C%20Costa%20Rica''
   \<and> \<not> str_includes (fst (routeClick emptyProps PositionError))
         (encodeURIComponent (origin_of emptyProps))"
proof -
  have enc: "encodeURIComponent (origin_of emptyProps)
       = ''Corcovado%20Hiking%20Tours%2C%20Puerto%20Jim%C3%A9nez%2C%20Puntarenas%2C%20Costa%20Rica''"
    by code_simp
  have "\<not> str_includes (fst (routeClick emptyProps PositionError))
         (encodeURIComponent (origin_of emptyProps))"
    by code_simp
  with enc show ?thesis
    by (simp add: queryParam_def queryParams_fallbackUrl)
qed

section \<open>The entry bootstrap\<close>

text \<open>
  C9. Without an element \<open>root\<close> in the page the bootstrap throws the error
  \<open>Root element #root not found\<close> and the page stays as it was; with one, it throws
  nothing and the element holds the banner rendered in its initial, Spanish state.
\<close>

theorem bootstrap_root:
  fixes plat :: "('d, 'f) platform"
  shows "(doc ''root'' = None \<longrightarrow>
      bootstrap plat doc = (Some (Error ''Root element #root not found''), doc))
   \<and> (doc ''root'' \<noteq> None \<longrightarrow>
      MeetingBanner plat mainProps (initialLang (mainProps :: 'd MeetingBannerProps))
        = Inr (bannerTree (mainProps :: 'd MeetingBannerProps) es ''5:30 PM'')
      \<and> bootstrap plat doc
        = (None, doc(''root'' \<mapsto> [bannerTree (mainProps :: 'd MeetingBannerProps) es ''5:30 PM''])))"
proof -
  define props where "props = (mainProps :: 'd MeetingBannerProps)"
  have lang: "initialLang props = es"
    by (simp add: props_def initialLang_matches mainProps_def matchesSpanishPrefix_def)
  have "timeString plat props es = Inr ''5:30 PM''"
    by (simp add: props_def timeString_def formatMeetingTime_def mainProps_def)
  then have "MeetingBanner plat props es = Inr (bannerTree props es ''5:30 PM'')"
    by (simp add: MeetingBanner_def)
  with lang show ?thesis
    by (auto simp: bootstrap_def Let_def props_def [symmetric])
qed

text \<open>A page without elements, and a page with an empty \<open>root\<close>.\<close>

theorem bootstrap_root_witness:
  "bootstrap stubPlatform Map.empty
     = (Some (Error ''Root element #root not found''), Map.empty)
   \<and> bootstrap stubPlatform [''root'' \<mapsto> []]
     = (None, [''root'' \<mapsto> [bannerTree (mainProps :: js_number MeetingBannerProps) es ''5:30 PM'']])"
  using bootstrap_root [where doc = Map.empty and plat = stubPlatform]
    bootstrap_root [where doc = "[''root'' \<mapsto> []]" and plat = stubPlatform]
  by simp

end
